theory Spec2Isabelle
  imports Complex_Main
begin

section \<open>Python values\<close>

text \<open>
  A Python \<open>str\<close> is modelled as the list of its code points, one \<^typ>\<open>char\<close> each, so
  \<^const>\<open>length\<close> is Python's \<open>len\<close>. A \<^typ>\<open>char\<close> has eight bits: the model covers
  text in the Latin-1 range, which holds every keyword of the source (the Portuguese
  accented letters are written by code point, \<open>CHR 0xE3\<close> for a-tilde and so on).
  Python floats are modelled as \<^typ>\<open>real\<close>: comparisons, \<open>max\<close> and \<open>min\<close> are exact in
  both, rounding of \<open>+\<close> and \<open>-\<close> is not modelled.
\<close>

definition lower_char :: "char \<Rightarrow> char" where
  "lower_char c =
     (let n = (of_char c :: nat)
      in if (65 \<le> n \<and> n \<le> 90) \<or> (192 \<le> n \<and> n \<le> 222 \<and> n \<noteq> 215)
         then char_of (n + 32) else c)"

definition lower :: "string \<Rightarrow> string" where
  \<comment> \<open>\<open>str.lower()\<close>\<close>
  "lower s = map lower_char s"

fun contains :: "string \<Rightarrow> string \<Rightarrow> bool" where
  \<comment> \<open>\<open>contains w s\<close> is Python's \<open>w in s\<close> on strings\<close>
  "contains w [] = (w = [])"
| "contains w (c # cs) = (take (length w) (c # cs) = w \<or> contains w cs)"

definition any_in :: "string list \<Rightarrow> string \<Rightarrow> bool" where
  \<comment> \<open>\<open>any(word in s for word in words)\<close>\<close>
  "any_in words s = list_ex (\<lambda>word. contains word s) words"

datatype py_error =
    NameError string
  | AttributeError string
  | TypeError string
  | OtherError string

fun str_of_error :: "py_error \<Rightarrow> string" where
  \<comment> \<open>\<open>str(e)\<close>\<close>
  "str_of_error (NameError n) = ''name '' @ [CHR 0x27] @ n @ [CHR 0x27] @ '' is not defined''"
| "str_of_error (AttributeError a) = a"
| "str_of_error (TypeError m) = m"
| "str_of_error (OtherError m) = m"

definition lookup_name :: "string list \<Rightarrow> string \<Rightarrow> py_error + unit" where
  \<comment> \<open>resolving a global name in a module whose bound names are \<open>names\<close>\<close>
  "lookup_name names n = (if n \<in> set names then Inr () else Inl (NameError n))"

section \<open>ai_service.py\<close>

record model_config =
  temperature :: real
  max_tokens :: nat
  top_p :: real
  frequency_penalty :: real
  presence_penalty :: real

definition initial_model_config :: model_config where
  \<comment> \<open>\<open>AIService.__init__\<close>\<close>
  "initial_model_config =
     \<lparr>temperature = 0.7, max_tokens = 2048, top_p = 0.9,
      frequency_penalty = 0.0, presence_penalty = 0.0\<rparr>"

text \<open>
  The argument of \<open>optimize_model_parameters\<close> is a dict; a field is \<open>None\<close> here when the
  key is absent, and \<open>dict.get\<close> then gives the default of the source.
\<close>

record feedback_analysis =
  average_rating :: "real option"
  total_feedback :: "int option"
  negative_feedback_rate :: "real option"
  optimization_type :: "string option"

definition get_average_rating :: "feedback_analysis \<Rightarrow> real" where
  "get_average_rating fa = (case average_rating fa of None \<Rightarrow> 3.0 | Some a \<Rightarrow> a)"

definition get_total_feedback :: "feedback_analysis \<Rightarrow> int" where
  "get_total_feedback fa = (case total_feedback fa of None \<Rightarrow> 0 | Some n \<Rightarrow> n)"

definition get_negative_feedback_rate :: "feedback_analysis \<Rightarrow> real" where
  "get_negative_feedback_rate fa = (case negative_feedback_rate fa of None \<Rightarrow> 0 | Some r \<Rightarrow> r)"

definition adjust_temperature :: "model_config \<Rightarrow> feedback_analysis \<Rightarrow> model_config" where
  "adjust_temperature cfg fa =
     (let avg_rating = get_average_rating fa;
          feedback_count = get_total_feedback fa
      in if avg_rating < 3.0 \<and> feedback_count \<ge> 10
         then cfg\<lparr>temperature := max 0.3 (temperature cfg - 0.1)\<rparr>
         else if avg_rating > 4.0 \<and> feedback_count \<ge> 10
         then cfg\<lparr>temperature := min 0.9 (temperature cfg + 0.1)\<rparr>
         else cfg)"

definition adjust_precision :: "model_config \<Rightarrow> feedback_analysis \<Rightarrow> model_config" where
  "adjust_precision cfg fa =
     (if get_negative_feedback_rate fa > 0.3
      then cfg\<lparr>top_p := max 0.7 (top_p cfg - 0.1),
               frequency_penalty := min 1.0 (frequency_penalty cfg + 0.1)\<rparr>
      else cfg)"

definition optimize_model_parameters :: "model_config \<Rightarrow> feedback_analysis \<Rightarrow> model_config" where
  \<comment> \<open>temperature first, then the other parameters; \<open>optimization_type\<close> is never read\<close>
  "optimize_model_parameters cfg fa = adjust_precision (adjust_temperature cfg fa) fa"

section \<open>The database and the services' state\<close>

text \<open>
  The tables of \<open>database_service.create_schema\<close> that the modelled operations touch are
  lists of rows, in insertion order, held in one record together with the in-memory state
  of the services. A SQL statement on them always succeeds: a failing connection is outside
  the model, and exceptions are those of the Python code itself. A UUID is a natural number,
  \<open>uuid.uuid4()\<close> draws the next unused one. Timestamps are seconds, \<open>DATE(t)\<close> is the day
  number \<open>t div 86400\<close>.
\<close>

type_synonym uuid = nat

datatype json =
    JNull
  | JBool bool
  | JInt int
  | JNum real
  | JStr string
  | JUuid uuid
  | JList "json list"
  | JObj "(string \<times> json) list"

type_synonym py_dict = "(string \<times> json) list"

definition has_key :: "string \<Rightarrow> py_dict \<Rightarrow> bool" where
  \<comment> \<open>\<open>key in d\<close>\<close>
  "has_key key d = (key \<in> set (map fst d))"

record message =
  m_id :: uuid
  m_conversation_id :: uuid
  m_content :: string

record feedback =
  f_id :: uuid
  f_message_id :: uuid
  f_conversation_id :: uuid
  rating :: int
  comment :: "string option"
  created_at :: int

record knowledge_item =
  k_id :: uuid
  title :: string
  content :: string
  category :: "string option"
  tags :: "string list"
  source :: string
  confidence_score :: real
  usage_count :: int
  last_used_at :: "int option"
  k_created_at :: int
  chromadb_id :: uuid

record metric =
  metric_name :: string
  metric_value :: real
  metric_type :: string
  labels :: py_dict
  metric_context :: py_dict
  m_timestamp :: int

datatype session_status = Pending | Running | Completed | Failed

record learning_session =
  s_id :: uuid
  session_type :: string
  status :: session_status
  input_data :: py_dict
  output_data :: "py_dict option"
  started_at :: int
  completed_at :: "int option"
  error_message :: "string option"

record learning_metrics =
  total_sessions :: nat
  successful_optimizations :: nat
  knowledge_items_created :: nat
  model_adjustments :: nat

record world =
  messages :: "message list"
  feedback_tbl :: "feedback list"
  knowledge_base :: "knowledge_item list"
  performance_metrics :: "metric list"
  learning_sessions :: "learning_session list"
  model_cfg :: model_config
  counters :: learning_metrics
  tasks :: "(uuid \<times> string) list"
  errors_logged :: "py_error list"
  clock :: int
  today :: string
  next_uuid :: uuid

definition uuid4 :: "world \<Rightarrow> uuid \<times> world" where
  "uuid4 w = (next_uuid w, w\<lparr>next_uuid := Suc (next_uuid w)\<rparr>)"

definition log_error :: "py_error \<Rightarrow> world \<Rightarrow> world" where
  \<comment> \<open>\<open>logger.error(...)\<close> in an \<open>except\<close> block\<close>
  "log_error e w = w\<lparr>errors_logged := errors_logged w @ [e]\<rparr>"

definition days :: "int \<Rightarrow> int" where
  \<comment> \<open>\<open>timedelta(days=n)\<close> and \<open>INTERVAL 'n days'\<close>, in seconds\<close>
  "days n = n * 86400"

definition date_of :: "int \<Rightarrow> int" where
  \<comment> \<open>\<open>DATE(t)\<close>\<close>
  "date_of t = t div 86400"

definition current_date :: "world \<Rightarrow> int" where
  \<comment> \<open>\<open>CURRENT_DATE\<close>: midnight of today\<close>
  "current_date w = date_of (clock w) * 86400"

definition avg :: "real list \<Rightarrow> real option" where
  \<comment> \<open>SQL \<open>AVG\<close>: \<open>NULL\<close> over no rows\<close>
  "avg xs = (if xs = [] then None else Some (sum_list xs / real (length xs)))"

definition float_or_zero :: "real option \<Rightarrow> real" where
  \<comment> \<open>\<open>float(x) if x else 0\<close>\<close>
  "float_or_zero x = (case x of None \<Rightarrow> 0 | Some a \<Rightarrow> (if a \<noteq> 0 then a else 0))"

section \<open>knowledge_service.py\<close>

definition knowledge_service_names :: "string list" where
  \<comment> \<open>the names the module binds: its imports and its class\<close>
  "knowledge_service_names =
     [''uuid'', ''json'', ''Optional'', ''List'', ''Dict'', ''Any'', ''AsyncSession'',
      ''text'', ''datetime'', ''logger'', ''KnowledgeService'']"

definition add_knowledge_item ::
  "world \<Rightarrow> string \<Rightarrow> string \<Rightarrow> string option \<Rightarrow> string list option \<Rightarrow> string \<Rightarrow> real
     \<Rightarrow> uuid \<times> world" where
  \<comment> \<open>the columns left out of the \<open>INSERT\<close> take the defaults of the schema\<close>
  "add_knowledge_item w ttl cont cat tgs src conf =
     (let (knowledge_id, w1) = uuid4 w;
          (chroma_id, w2) = uuid4 w1;
          row = \<lparr>k_id = knowledge_id, title = ttl, content = cont, category = cat,
                 tags = (case tgs of None \<Rightarrow> [] | Some ts \<Rightarrow> ts), source = src,
                 confidence_score = conf, usage_count = 0, last_used_at = None,
                 k_created_at = clock w, chromadb_id = chroma_id\<rparr>
      in (knowledge_id, w2\<lparr>knowledge_base := knowledge_base w2 @ [row]\<rparr>))"

definition cleanup_where :: "int \<Rightarrow> knowledge_item \<Rightarrow> bool" where
  \<comment> \<open>the \<open>WHERE\<close> clause of the sweep's \<open>SELECT\<close>\<close>
  "cleanup_where cutoff_date k =
     ((case last_used_at k of None \<Rightarrow> True | Some t \<Rightarrow> t < cutoff_date)
      \<and> usage_count k < 5
      \<and> confidence_score k < 0.5
      \<and> source k \<noteq> ''admin_input'')"

definition cleanup_old_knowledge :: "world \<Rightarrow> int \<Rightarrow> world" where
  \<comment> \<open>\<open>timedelta\<close> is looked up in the module's names before any statement is sent;
      the \<open>except\<close> block rolls back (nothing is pending) and logs\<close>
  "cleanup_old_knowledge w days_threshold =
     (case lookup_name knowledge_service_names ''timedelta'' of
        Inl e \<Rightarrow> log_error e w
      | Inr _ \<Rightarrow>
          (let cutoff_date = clock w - days days_threshold;
               items_to_remove = filter (cleanup_where cutoff_date) (knowledge_base w);
               item_ids = map k_id items_to_remove
           in if items_to_remove \<noteq> []
              then w\<lparr>knowledge_base := filter (\<lambda>k. k_id k \<notin> set item_ids) (knowledge_base w)\<rparr>
              else w))"

section \<open>metrics_service.py\<close>

definition metrics_service_attrs :: "string list" where
  \<comment> \<open>the attributes of a \<open>MetricsService\<close> object: its methods and the field set in \<open>__init__\<close>\<close>
  "metrics_service_attrs =
     [''__init__'', ''metrics_retention_days'', ''record_metric'', ''get_system_metrics'',
      ''_get_system_resource_metrics'', ''get_performance_trends'', ''cleanup_old_metrics'']"

definition lookup_attr :: "string list \<Rightarrow> string \<Rightarrow> py_error + unit" where
  \<comment> \<open>\<open>obj.name\<close> on an object whose attributes are \<open>attrs\<close>\<close>
  "lookup_attr attrs n =
     (if n \<in> set attrs then Inr ()
      else Inl (AttributeError (''object has no attribute '' @ n)))"

definition metrics_service_names :: "string list" where
  \<comment> \<open>the names the module has bound when the body of \<open>class MetricsService\<close> runs\<close>
  "metrics_service_names =
     [''json'', ''psutil'', ''Dict'', ''Any'', ''List'', ''AsyncSession'', ''text'',
      ''datetime'', ''timedelta'', ''logger'']"

definition import_metrics_service :: "py_error + unit" where
  \<comment> \<open>loading the module: the class body runs \<open>async def record_metric(...)\<close>, and the
      annotations \<open>Optional[...]\<close> of its parameters are evaluated when the \<open>def\<close> runs
      (CPython before 3.14), so \<open>Optional\<close> is looked up in the module's names\<close>
  "import_metrics_service = lookup_name metrics_service_names ''Optional''"

definition insert_metric ::
  "world \<Rightarrow> string \<Rightarrow> real \<Rightarrow> string \<Rightarrow> py_dict option \<Rightarrow> py_dict option \<Rightarrow> world" where
  \<comment> \<open>the \<open>INSERT INTO performance_metrics\<close> in the body of \<open>record_metric\<close>\<close>
  "insert_metric w name val typ lbls ctx =
     w\<lparr>performance_metrics := performance_metrics w @
         [\<lparr>metric_name = name, metric_value = val, metric_type = typ,
           labels = (case lbls of None \<Rightarrow> [] | Some l \<Rightarrow> l),
           metric_context = (case ctx of None \<Rightarrow> [] | Some c \<Rightarrow> c),
           m_timestamp = clock w\<rparr>]\<rparr>"

definition record_metric ::
  "world \<Rightarrow> string \<Rightarrow> real \<Rightarrow> string \<Rightarrow> py_dict option \<Rightarrow> py_dict option
     \<Rightarrow> py_error + world" where
  \<comment> \<open>the method exists only once its module has loaded\<close>
  "record_metric w name val typ lbls ctx =
     (case import_metrics_service of
        Inl e \<Rightarrow> Inl e
      | Inr _ \<Rightarrow> Inr (insert_metric w name val typ lbls ctx))"

record trend_point =
  date :: int
  average :: real
  sample_count :: nat

definition daily_series :: "(int \<times> real) list \<Rightarrow> trend_point list" where
  \<comment> \<open>\<open>SELECT DATE(t), AVG(v), COUNT(*) ... GROUP BY DATE(t) ORDER BY date\<close> over rows
      \<open>(t, v)\<close>, with \<open>float(row[1]) if row[1] else 0\<close> applied to the average\<close>
  "daily_series rows =
     map (\<lambda>d. let vs = map snd (filter (\<lambda>r. date_of (fst r) = d) rows)
               in \<lparr>date = d, average = float_or_zero (avg vs), sample_count = length vs\<rparr>)
         (sort (remdups (map (\<lambda>r. date_of (fst r)) rows)))"

record trends =
  response_time :: "trend_point list"
  user_satisfaction :: "trend_point list"

definition select_trends :: "world \<Rightarrow> int \<Rightarrow> trends" where
  \<comment> \<open>the two \<open>SELECT\<close>s in the body of \<open>get_performance_trends\<close>\<close>
  "select_trends w ds =
     (let since_date = clock w - days ds
      in \<lparr>response_time =
            daily_series (map (\<lambda>m. (m_timestamp m, metric_value m))
              (filter (\<lambda>m. metric_name m = ''response_time'' \<and> m_timestamp m \<ge> since_date)
                 (performance_metrics w))),
          user_satisfaction =
            daily_series (map (\<lambda>f. (created_at f, real_of_int (rating f)))
              (filter (\<lambda>f. created_at f \<ge> since_date) (feedback_tbl w)))\<rparr>)"

definition get_performance_trends :: "world \<Rightarrow> int \<Rightarrow> py_error + trends" where
  \<comment> \<open>the method exists only once its module has loaded\<close>
  "get_performance_trends w ds =
     (case import_metrics_service of
        Inl e \<Rightarrow> Inl e
      | Inr _ \<Rightarrow> Inr (select_trends w ds))"

section \<open>feedback_service.py\<close>

definition feedback_service_names :: "string list" where
  "feedback_service_names =
     [''uuid'', ''Optional'', ''List'', ''Dict'', ''Any'', ''AsyncSession'', ''text'',
      ''select'', ''func'', ''datetime'', ''timedelta'', ''logger'', ''FeedbackService'']"

definition new_session :: "world \<Rightarrow> uuid \<Rightarrow> string \<Rightarrow> py_dict \<Rightarrow> learning_session" where
  \<comment> \<open>\<open>INSERT INTO learning_sessions (id, session_type, status, input_data)\<close> with status
      \<open>'pending'\<close>; the other columns take the defaults of the schema\<close>
  "new_session w sid typ inp =
     \<lparr>s_id = sid, session_type = typ, status = Pending, input_data = inp,
      output_data = None, started_at = clock w, completed_at = None, error_message = None\<rparr>"

definition trigger_learning_session :: "world \<Rightarrow> uuid \<Rightarrow> world" where
  \<comment> \<open>\<open>json.dumps\<close> is evaluated while the statement's parameters are built\<close>
  "trigger_learning_session w message_id =
     (let (session_id, w1) = uuid4 w
      in case lookup_name feedback_service_names ''json'' of
           Inl e \<Rightarrow> log_error e w1
         | Inr _ \<Rightarrow>
             w1\<lparr>learning_sessions := learning_sessions w1 @
                 [new_session w1 session_id ''feedback_analysis''
                    [(''message_id'', JUuid message_id)]]\<rparr>)"

definition feedback_service_threshold :: nat where
  "feedback_service_threshold = 3"

definition check_learning_trigger :: "world \<Rightarrow> uuid \<Rightarrow> world" where
  "check_learning_trigger w message_id =
     (let feedback_count = length (filter (\<lambda>f. f_message_id f = message_id) (feedback_tbl w))
      in if feedback_count \<ge> feedback_service_threshold
         then trigger_learning_session w message_id
         else w)"

section \<open>learning_service.py\<close>

definition feedback_threshold :: nat where
  \<comment> \<open>\<open>LearningService.__init__\<close>\<close>
  "feedback_threshold = 3"

definition count_knowledge_item :: "world \<Rightarrow> world" where
  \<comment> \<open>\<open>self.learning_metrics["knowledge_items_created"] += 1\<close>\<close>
  "count_knowledge_item w =
     w\<lparr>counters := (counters w)\<lparr>knowledge_items_created :=
          Suc (knowledge_items_created (counters w))\<rparr>\<rparr>"

definition process_positive_feedback ::
  "world \<Rightarrow> string \<Rightarrow> string option \<Rightarrow> uuid \<Rightarrow> world" where
  "process_positive_feedback w message_content cmt conversation_id =
     (let w1 = (if length message_content > 100
                then count_knowledge_item (snd (add_knowledge_item w
                       (''Resposta bem avaliada - '' @ today w) message_content
                       (Some ''respostas_positivas'') None ''feedback_positivo'' 0.9))
                else w)
      in case cmt of
           None \<Rightarrow> w1
         | Some c \<Rightarrow>
             if c \<noteq> [] \<and> length c > 20
             then snd (add_knowledge_item w1
                    (''Insight do usu'' @ [CHR 0xE1] @ ''rio - '' @ today w1) c
                    (Some ''insights_usuarios'') None ''comentario_positivo'' 0.8)
             else w1)"

definition improvement_areas :: "string option \<Rightarrow> string list" where
  \<comment> \<open>the list built from the comment in \<open>_process_negative_feedback\<close>\<close>
  "improvement_areas cmt =
     (case cmt of
        None \<Rightarrow> []
      | Some c \<Rightarrow>
          if c = [] then []
          else (let comment_lower = lower c
                in (if any_in [''lento'', ''devagar'', ''demora''] comment_lower
                    then [''performance''] else [])
                 @ (if any_in [''errado'', ''incorreto'', ''impreciso''] comment_lower
                    then [''accuracy''] else [])
                 @ (if any_in [''confuso'', ''n'' @ [CHR 0xE3] @ ''o entendi'', ''vago'']
                         comment_lower
                    then [''clarity''] else [])
                 @ (if any_in [''incompleto'', ''faltou''] comment_lower
                    then [''completeness''] else [])))"

text \<open>
  Modelled from the spec: the body of \<open>record_system_metric\<close>. No class of the repository
  defines a method of this name (\<open>MetricsService\<close> has \<open>record_metric\<close>, which takes the
  database session first); the spec says that each area increments a corresponding
  metric, so after a successful attribute lookup the call is taken to be one Metric write.
  The lookup itself is the code's: it is made on the attributes of \<open>MetricsService\<close>.
\<close>

definition record_system_metric ::
  "world \<Rightarrow> string \<Rightarrow> real \<Rightarrow> py_dict \<Rightarrow> py_error + world" where
  "record_system_metric w name val lbls =
     (case lookup_attr metrics_service_attrs ''record_system_metric'' of
        Inl e \<Rightarrow> Inl e
      | Inr _ \<Rightarrow> record_metric w name val ''gauge'' (Some lbls) None)"

fun record_improvement_areas :: "world \<Rightarrow> string list \<Rightarrow> uuid \<Rightarrow> py_error + world" where
  \<comment> \<open>\<open>for area in improvement_areas: await self.metrics_service.record_system_metric(...)\<close>\<close>
  "record_improvement_areas w [] conversation_id = Inr w"
| "record_improvement_areas w (area # rest) conversation_id =
     (case record_system_metric w (''improvement_needed_'' @ area) 1.0
             [(''conversation_id'', JUuid conversation_id),
              (''source'', JStr ''negative_feedback'')] of
        Inl e \<Rightarrow> Inl e
      | Inr w' \<Rightarrow> record_improvement_areas w' rest conversation_id)"

definition process_negative_feedback ::
  "world \<Rightarrow> string \<Rightarrow> string option \<Rightarrow> uuid \<Rightarrow> world" where
  \<comment> \<open>the closing \<open>UPDATE messages SET metadata = ...\<close> writes no table of this model\<close>
  "process_negative_feedback w message_content cmt conversation_id =
     (case record_improvement_areas w (improvement_areas cmt) conversation_id of
        Inl e \<Rightarrow> log_error e w
      | Inr w' \<Rightarrow> w')"

definition json_float_or_zero :: "real option \<Rightarrow> json" where
  \<comment> \<open>\<open>float(x) if x else 0\<close> as a JSON value\<close>
  "json_float_or_zero x =
     (case x of None \<Rightarrow> JInt 0 | Some a \<Rightarrow> (if a \<noteq> 0 then JNum a else JInt 0))"

definition check_model_optimization_trigger :: "world \<Rightarrow> uuid \<Rightarrow> world" where
  "check_model_optimization_trigger w message_id =
     (let rows = filter (\<lambda>f. f_message_id f = message_id) (feedback_tbl w);
          count = length rows;
          avg_rating = avg (map (\<lambda>f. real_of_int (rating f)) rows)
      in if count \<ge> feedback_threshold
         then (let (session_id, w1) = uuid4 w;
                   w2 = w1\<lparr>learning_sessions := learning_sessions w1 @
                          [new_session w1 session_id ''model_optimization''
                             [(''trigger_message_id'', JUuid message_id),
                              (''feedback_count'', JInt (int count)),
                              (''avg_rating'', json_float_or_zero avg_rating)]]\<rparr>
               in w2\<lparr>tasks := tasks w2 @ [(session_id, ''model_optimization'')]\<rparr>)
         else w)"

definition feedback_with_message :: "world \<Rightarrow> uuid \<Rightarrow> (uuid \<times> uuid \<times> string) list" where
  \<comment> \<open>\<open>SELECT f.message_id, f.conversation_id, m.content FROM feedback f
      JOIN messages m ON f.message_id = m.id WHERE f.id = :feedback_id\<close>\<close>
  "feedback_with_message w feedback_id =
     concat (map (\<lambda>f. map (\<lambda>m. (f_message_id f, f_conversation_id f, m_content m))
                         (filter (\<lambda>m. m_id m = f_message_id f) (messages w)))
                 (filter (\<lambda>f. f_id f = feedback_id) (feedback_tbl w)))"

definition process_feedback_for_learning ::
  "world \<Rightarrow> uuid \<Rightarrow> int \<Rightarrow> string option \<Rightarrow> world" where
  \<comment> \<open>the \<open>rating\<close> and the \<open>comment\<close> are the caller's arguments, the message is read
      from the tables through the feedback row (\<open>fetchone\<close>: the first row, if any)\<close>
  "process_feedback_for_learning w feedback_id rtg cmt =
     (case feedback_with_message w feedback_id of
        [] \<Rightarrow> w
      | (message_id, conversation_id, message_content) # _ \<Rightarrow>
          (let w1 = (if rtg \<ge> 4
                     then process_positive_feedback w message_content cmt conversation_id
                     else if rtg \<le> 2
                     then process_negative_feedback w message_content cmt conversation_id
                     else w)
           in check_model_optimization_trigger w1 message_id))"

fun join_with :: "string \<Rightarrow> string list \<Rightarrow> string" where
  \<comment> \<open>\<open>sep.join(xs)\<close>\<close>
  "join_with sep [] = []"
| "join_with sep [x] = x"
| "join_with sep (x # y # ys) = x @ sep @ join_with sep (y # ys)"

definition analyze_negative_patterns :: "string list \<Rightarrow> string list" where
  "analyze_negative_patterns comments =
     (if comments = [] then []
      else (let all_comments = lower (join_with '' '' comments)
            in (if any_in [''muito longo'', ''extenso'', ''prolixo''] all_comments
                then [''response_length''] else [])
             @ (if any_in [''t'' @ [CHR 0xE9] @ ''cnico'', ''complexo'',
                           ''dif'' @ [CHR 0xED] @ ''cil''] all_comments
                then [''technical_complexity''] else [])
             @ (if any_in [''impreciso'', ''errado'', ''incorreto''] all_comments
                then [''technical_accuracy''] else [])
             @ (if any_in [''vago'', ''gen'' @ [CHR 0xE9] @ ''rico'', ''superficial'']
                     all_comments
                then [''response_depth''] else [])))"

definition pattern_tags :: "string list \<Rightarrow> string list" where
  \<comment> \<open>the tags the loop over \<open>patterns\<close> appends to \<open>optimizations_applied\<close>\<close>
  "pattern_tags patterns =
     concat (map (\<lambda>pattern.
        if pattern = ''response_length'' then [''response_length_adjustment'']
        else if pattern = ''technical_accuracy'' then [''technical_accuracy_improvement'']
        else []) patterns)"

definition tune :: "world \<Rightarrow> real \<Rightarrow> int \<Rightarrow> string \<Rightarrow> world" where
  \<comment> \<open>the call of \<open>ai_service.optimize_model_parameters\<close> and
      \<open>self.learning_metrics["model_adjustments"] += 1\<close>\<close>
  "tune w avg_rating total_count mode =
     w\<lparr>model_cfg := optimize_model_parameters (model_cfg w)
            \<lparr>average_rating = Some avg_rating, total_feedback = Some total_count,
             negative_feedback_rate = None, optimization_type = Some mode\<rparr>,
       counters := (counters w)\<lparr>model_adjustments := Suc (model_adjustments (counters w))\<rparr>\<rparr>"

definition none_lt_float :: py_error where
  \<comment> \<open>what \<open>None < 3.0\<close> raises\<close>
  "none_lt_float =
     TypeError ([CHR 0x27] @ ''<'' @ [CHR 0x27] @ '' not supported between instances of ''
       @ [CHR 0x27] @ ''NoneType'' @ [CHR 0x27] @ '' and '' @ [CHR 0x27] @ ''float''
       @ [CHR 0x27])"

definition recent_feedback :: "world \<Rightarrow> feedback list" where
  \<comment> \<open>\<open>FROM feedback WHERE created_at >= CURRENT_DATE - INTERVAL '7 days'\<close>\<close>
  "recent_feedback w =
     filter (\<lambda>f. created_at f \<ge> current_date w - days 7) (feedback_tbl w)"

definition negative_comments :: "world \<Rightarrow> string list" where
  \<comment> \<open>\<open>SELECT comment FROM feedback WHERE rating <= 2 AND comment IS NOT NULL
      AND created_at >= CURRENT_DATE - INTERVAL '7 days'\<close>\<close>
  "negative_comments w =
     concat (map (\<lambda>f. case comment f of None \<Rightarrow> [] | Some c \<Rightarrow> [c])
               (filter (\<lambda>f. rating f \<le> 2) (recent_feedback w)))"

definition run_model_optimization :: "world \<Rightarrow> uuid \<Rightarrow> (py_error + py_dict) \<times> world" where
  \<comment> \<open>every exception is caught inside and turned into a dict with the key \<open>error\<close>;
      the aggregate query always returns one row, so \<open>not stats\<close> is never true\<close>
  "run_model_optimization w session_id =
     (let recent = recent_feedback w;
          avg_rating = avg (map (\<lambda>f. real_of_int (rating f)) recent);
          total_count = int (length recent);
          negative_feedback = int (length (filter (\<lambda>f. rating f \<le> 2) recent));
          positive_feedback = int (length (filter (\<lambda>f. rating f \<ge> 4) recent));
          analysis = JObj
            [(''avg_rating'', json_float_or_zero avg_rating),
             (''total_feedback'', JInt total_count),
             (''negative_rate'',
                if total_count > 0 then JNum (real_of_int negative_feedback / real_of_int total_count)
                else JInt 0),
             (''positive_rate'',
                if total_count > 0 then JNum (real_of_int positive_feedback / real_of_int total_count)
                else JInt 0)]
      in case avg_rating of
           None \<Rightarrow>
             (Inr [(''error'', JStr (str_of_error none_lt_float))], log_error none_lt_float w)
         | Some a \<Rightarrow>
             (let (applied, w1) =
                    (if a < 3.0 \<and> total_count \<ge> 10
                     then ([''conservative_tuning''], tune w a total_count ''conservative'')
                     else if a > 4.0 \<and> total_count \<ge> 10
                     then ([''creative_tuning''], tune w a total_count ''creative'')
                     else ([], w));
                  patterns = analyze_negative_patterns (negative_comments w)
              in (Inr ([(''session_id'', JUuid session_id),
                        (''analysis'', analysis),
                        (''optimizations_applied'',
                           JList (map JStr (if negative_feedback > 5
                                            then applied @ pattern_tags patterns
                                            else applied)))]
                       @ (if negative_feedback > 5
                          then [(''negative_patterns'', JList (map JStr patterns))]
                          else [])),
                  w1)))"

type_synonym handler = "world \<Rightarrow> uuid \<Rightarrow> (py_error + py_dict) \<times> world"

text \<open>
  The runner dispatches on the session type. The handler of \<open>model_optimization\<close> is the
  one above; the two other handlers are parameters of the runner, and so is any exception
  that reaches the runner's \<open>except\<close> block (\<open>Inl\<close>).
\<close>

record handlers =
  run_knowledge_expansion :: handler
  run_comprehensive_analysis :: handler

definition update_session ::
  "uuid \<Rightarrow> (learning_session \<Rightarrow> learning_session) \<Rightarrow> world \<Rightarrow> world" where
  \<comment> \<open>\<open>UPDATE learning_sessions SET ... WHERE id = :session_id\<close>\<close>
  "update_session session_id f w =
     w\<lparr>learning_sessions :=
         map (\<lambda>s. if s_id s = session_id then f s else s) (learning_sessions w)\<rparr>"

definition mark_running :: "world \<Rightarrow> uuid \<Rightarrow> world" where
  "mark_running w session_id =
     update_session session_id (\<lambda>s. s\<lparr>status := Running, started_at := clock w\<rparr>) w"

definition finish_session :: "world \<Rightarrow> uuid \<Rightarrow> py_dict \<Rightarrow> world" where
  "finish_session w session_id result =
     update_session session_id
       (\<lambda>s. s\<lparr>status := (if \<not> has_key ''error'' result then Completed else Failed),
              completed_at := Some (clock w),
              output_data := Some result\<rparr>) w"

definition mark_failed :: "world \<Rightarrow> uuid \<Rightarrow> py_error \<Rightarrow> world" where
  "mark_failed w session_id e =
     update_session session_id
       (\<lambda>s. s\<lparr>status := Failed, completed_at := Some (clock w),
              error_message := Some (str_of_error e)\<rparr>) w"

definition count_session :: "py_dict \<Rightarrow> world \<Rightarrow> world" where
  \<comment> \<open>\<open>total_sessions += 1\<close>, and \<open>successful_optimizations += 1\<close> without the error key\<close>
  "count_session result w =
     w\<lparr>counters := (counters w)\<lparr>
          total_sessions := Suc (total_sessions (counters w)),
          successful_optimizations :=
            (if \<not> has_key ''error'' result
             then Suc (successful_optimizations (counters w))
             else successful_optimizations (counters w))\<rparr>\<rparr>"

definition dispatch :: "handlers \<Rightarrow> world \<Rightarrow> uuid \<Rightarrow> string \<Rightarrow> (py_error + py_dict) \<times> world" where
  "dispatch hs w session_id typ =
     (if typ = ''model_optimization'' then run_model_optimization w session_id
      else if typ = ''knowledge_expansion'' then run_knowledge_expansion hs w session_id
      else if typ = ''comprehensive_analysis'' then run_comprehensive_analysis hs w session_id
      else (Inr [(''error'', JStr (''Tipo de sess'' @ [CHR 0xE3] @ ''o desconhecido: '' @ typ))],
            w))"

definition run_learning_session :: "handlers \<Rightarrow> world \<Rightarrow> uuid \<Rightarrow> string \<Rightarrow> world" where
  "run_learning_session hs w session_id typ =
     (let w1 = mark_running w session_id;
          (outcome, w2) = dispatch hs w1 session_id typ
      in case outcome of
           Inr result \<Rightarrow> count_session result (finish_session w2 session_id result)
         | Inl e \<Rightarrow> mark_failed (log_error e w2) session_id e)"

section \<open>celery_tasks.py\<close>

definition extract_improvement_area :: "string \<Rightarrow> string" where
  "extract_improvement_area cmt =
     (let comment_lower = lower cmt
      in if any_in [''lento'', ''devagar'', ''demora'', ''tempo''] comment_lower
         then ''performance''
         else if any_in [''errado'', ''incorreto'', ''erro'', ''impreciso''] comment_lower
         then ''accuracy''
         else if any_in [''confuso'', ''n'' @ [CHR 0xE3] @ ''o entendi'', ''unclear'', ''vago'']
                   comment_lower
         then ''clarity''
         else if any_in [''incompleto'', ''faltou'', ''mais detalhes''] comment_lower
         then ''completeness''
         else ''general'')"

definition last3 :: "'a list \<Rightarrow> 'a list" where
  \<comment> \<open>\<open>xs[-3:]\<close>\<close>
  "last3 xs = drop (length xs - 3) xs"

definition mean_recent :: "trend_point list \<Rightarrow> real" where
  \<comment> \<open>\<open>sum(recent) / len(recent)\<close> over the values of the last three days\<close>
  "mean_recent series =
     (let recent = map average (last3 series)
      in sum_list recent / real (length recent))"

definition import_celery_tasks :: "py_error + unit" where
  \<comment> \<open>loading \<open>celery_tasks.py\<close>: of the modules it imports, \<open>feedback_service\<close> and
      \<open>knowledge_service\<close> load; \<open>from backend.services.metrics_service import
      MetricsService\<close> loads \<open>metrics_service\<close>\<close>
  "import_celery_tasks = import_metrics_service"

definition satisfaction_alert :: "world \<Rightarrow> trend_point list \<Rightarrow> py_error + world" where
  "satisfaction_alert w satisfaction_trend =
     (if length satisfaction_trend \<ge> 3
      then (let avg_recent = mean_recent satisfaction_trend
            in if avg_recent < 3.0
               then record_metric w ''system_alert'' avg_recent ''gauge''
                      (Some [(''alert_type'', JStr ''satisfaction_decline'')])
                      (Some [(''type'', JStr ''satisfaction_decline''),
                             (''severity'', JStr ''high''),
                             (''avg_rating'', JNum avg_recent),
                             (''recommendation'', JStr
                                ''Revisar qualidade das respostas e considerar ajustes no modelo'')])
               else Inr w)
      else Inr w)"

definition response_time_alert :: "world \<Rightarrow> trend_point list \<Rightarrow> py_error + world" where
  "response_time_alert w response_time_trend =
     (if length response_time_trend \<ge> 3
      then (let avg_recent_time = mean_recent response_time_trend
            in if avg_recent_time > 5.0
               then record_metric w ''system_alert'' avg_recent_time ''gauge''
                      (Some [(''alert_type'', JStr ''performance_degradation'')])
                      (Some [(''type'', JStr ''performance_degradation''),
                             (''severity'', JStr ''medium''),
                             (''avg_response_time'', JNum avg_recent_time),
                             (''recommendation'', JStr
                                ''Otimizar performance do modelo ou infraestrutura'')])
               else Inr w)
      else Inr w)"

definition analyze_performance_trends_async ::
  "world \<Rightarrow> py_error + ((nat \<times> nat) \<times> world)" where
  \<comment> \<open>the function exists only once its module has loaded; it then returns
      \<open>trends_analyzed\<close> and \<open>alerts_generated\<close> (the constant 0 of the source) with the
      new state, reading the trends once, before the alerts are written; an exception is
      logged and raised again\<close>
  "analyze_performance_trends_async w =
     (case import_celery_tasks of
        Inl e \<Rightarrow> Inl e
      | Inr _ \<Rightarrow>
          (case get_performance_trends w 7 of
             Inl e \<Rightarrow> Inl e
           | Inr trends \<Rightarrow>
               (case satisfaction_alert w (user_satisfaction trends) of
                  Inl e \<Rightarrow> Inl e
                | Inr w1 \<Rightarrow>
                    (case response_time_alert w1 (response_time trends) of
                       Inl e \<Rightarrow> Inl e
                     | Inr w2 \<Rightarrow>
                         Inr ((length (user_satisfaction trends)
                                 + length (response_time trends), 0), w2)))))"

section \<open>Sample data\<close>

definition fresh_world :: world where
  \<comment> \<open>the state after start-up: empty tables, the initial configuration, some clock\<close>
  "fresh_world =
     \<lparr>messages = [], feedback_tbl = [], knowledge_base = [], performance_metrics = [],
      learning_sessions = [], model_cfg = initial_model_config,
      counters = \<lparr>total_sessions = 0, successful_optimizations = 0,
                  knowledge_items_created = 0, model_adjustments = 0\<rparr>,
      tasks = [], errors_logged = [], clock = days 1000 + 3600, today = ''04/11/2026'',
      next_uuid = 500\<rparr>"

definition fb :: "uuid \<Rightarrow> uuid \<Rightarrow> int \<Rightarrow> string option \<Rightarrow> int \<Rightarrow> feedback" where
  \<comment> \<open>a feedback row of conversation 1\<close>
  "fb i message_id r c t =
     \<lparr>f_id = i, f_message_id = message_id, f_conversation_id = 1, rating = r, comment = c,
      created_at = t\<rparr>"


definition idle_handlers :: handlers where
  \<comment> \<open>handlers that find nothing to do and return an empty result\<close>
  "idle_handlers =
     \<lparr>run_knowledge_expansion = (\<lambda>w session_id. (Inr [], w)),
      run_comprehensive_analysis = (\<lambda>w session_id. (Inr [], w))\<rparr>"

definition raising_handlers :: handlers where
  \<comment> \<open>handlers on which an exception reaches the runner\<close>
  "raising_handlers =
     \<lparr>run_knowledge_expansion = (\<lambda>w session_id. (Inl (OtherError ''connection lost''), w)),
      run_comprehensive_analysis = (\<lambda>w session_id. (Inl (OtherError ''connection lost''), w))\<rparr>"

definition session_in :: "session_status \<Rightarrow> uuid \<Rightarrow> string \<Rightarrow> learning_session" where
  \<comment> \<open>a session row as the trigger inserts it, moved to the given status\<close>
  "session_in st sid typ = (new_session fresh_world sid typ [])\<lparr>status := st\<rparr>"

definition answer :: "nat \<Rightarrow> string" where
  \<comment> \<open>an assistant message of \<open>n\<close> characters\<close>
  "answer n = replicate n (CHR ''a'')"

definition world_with_feedback :: "string \<Rightarrow> int \<Rightarrow> string option \<Rightarrow> world" where
  \<comment> \<open>message 7 of conversation 1 and one feedback (id 1) on it, given now\<close>
  "world_with_feedback msg r c =
     fresh_world\<lparr>messages := [\<lparr>m_id = 7, m_conversation_id = 1, m_content = msg\<rparr>],
                 feedback_tbl := [fb 1 7 r c (clock fresh_world)]\<rparr>"

definition low_rated_week :: world where
  \<comment> \<open>ten feedbacks of today with the ratings 1,1,2,2,1,2,1,2,1,2 and a pending
      \<open>model_optimization\<close> session, the configuration being the initial one\<close>
  "low_rated_week =
     fresh_world\<lparr>feedback_tbl :=
         [fb 1 7 1 None (clock fresh_world), fb 2 7 1 None (clock fresh_world),
          fb 3 7 2 None (clock fresh_world), fb 4 7 2 None (clock fresh_world),
          fb 5 7 1 None (clock fresh_world), fb 6 7 2 None (clock fresh_world),
          fb 7 7 1 None (clock fresh_world), fb 8 7 2 None (clock fresh_world),
          fb 9 7 1 None (clock fresh_world), fb 10 7 2 None (clock fresh_world)],
       learning_sessions := [session_in Pending 1 ''model_optimization'']\<rparr>"

definition response_time_row :: "int \<Rightarrow> real \<Rightarrow> metric" where
  \<comment> \<open>a \<open>response_time\<close> measurement of \<open>v\<close> seconds taken at time \<open>t\<close>\<close>
  "response_time_row t v =
     \<lparr>metric_name = ''response_time'', metric_value = v, metric_type = ''gauge'',
      labels = [], metric_context = [], m_timestamp = t\<rparr>"

definition slow_week :: world where
  \<comment> \<open>the three days before today: one measurement a day, of 6.2, 5.8 and 6.5 seconds,
      and one feedback a day, rated 2, 3 and 2\<close>
  "slow_week =
     fresh_world\<lparr>performance_metrics :=
         [response_time_row (days 997 + 60) 6.2, response_time_row (days 998 + 60) 5.8,
          response_time_row (days 999 + 60) 6.5],
       feedback_tbl :=
         [fb 1 7 2 None (days 997 + 120), fb 2 7 3 None (days 998 + 120),
          fb 3 7 2 None (days 999 + 120)]\<rparr>"

section \<open>Properties of the parameter tuner\<close>

lemma adjust_temperature_other_fields:
  "top_p (adjust_temperature cfg fa) = top_p cfg"
  "frequency_penalty (adjust_temperature cfg fa) = frequency_penalty cfg"
  by (simp_all add: adjust_temperature_def Let_def)

lemma adjust_precision_temperature:
  "temperature (adjust_precision cfg fa) = temperature cfg"
  by (simp add: adjust_precision_def)

text \<open>
  C4. From a configuration within the safety bounds, \<open>optimize_model_parameters\<close> returns a
  configuration within the bounds, whatever the statistics: temperature in [0.3, 0.9],
  top_p at least 0.7, frequency_penalty at most 1.0. In the conservative branch (average
  rating below 3.0 with at least 10 feedbacks) the temperature becomes
  max(0.3, current - 0.1); in the creative branch (average above 4.0 with at least 10
  feedbacks) it becomes min(0.9, current + 0.1); and a negative-feedback rate above 0.3
  sets top_p to max(0.7, current - 0.1) and frequency_penalty to min(1.0, current + 0.1)
  in every branch.
\<close>

theorem optimize_model_parameters_bounds:
  assumes "0.3 \<le> temperature cfg" and "temperature cfg \<le> 0.9"
    and "0.7 \<le> top_p cfg" and "frequency_penalty cfg \<le> 1.0"
  shows "0.3 \<le> temperature (optimize_model_parameters cfg fa)
       \<and> temperature (optimize_model_parameters cfg fa) \<le> 0.9
       \<and> 0.7 \<le> top_p (optimize_model_parameters cfg fa)
       \<and> frequency_penalty (optimize_model_parameters cfg fa) \<le> 1.0
       \<and> (get_average_rating fa < 3.0 \<and> get_total_feedback fa \<ge> 10 \<longrightarrow>
            temperature (optimize_model_parameters cfg fa) = max 0.3 (temperature cfg - 0.1))
       \<and> (\<not> get_average_rating fa < 3.0 \<and> get_average_rating fa > 4.0
            \<and> get_total_feedback fa \<ge> 10 \<longrightarrow>
            temperature (optimize_model_parameters cfg fa) = min 0.9 (temperature cfg + 0.1))
       \<and> (get_negative_feedback_rate fa > 0.3 \<longrightarrow>
            top_p (optimize_model_parameters cfg fa) = max 0.7 (top_p cfg - 0.1)
          \<and> frequency_penalty (optimize_model_parameters cfg fa)
              = min 1.0 (frequency_penalty cfg + 0.1))"
proof -
  have t: "temperature (optimize_model_parameters cfg fa) = temperature (adjust_temperature cfg fa)"
    by (simp add: optimize_model_parameters_def adjust_precision_temperature)
  have lo: "0.3 \<le> temperature (adjust_temperature cfg fa)"
    using assms(1) by (auto simp add: adjust_temperature_def Let_def max_def min_def)
  have hi: "temperature (adjust_temperature cfg fa) \<le> 0.9"
    using assms(2) by (auto simp add: adjust_temperature_def Let_def max_def min_def)
  have p: "0.7 \<le> top_p (optimize_model_parameters cfg fa)"
    using assms(3)
    by (auto simp add: optimize_model_parameters_def adjust_precision_def
        adjust_temperature_other_fields max_def min_def)
  have f: "frequency_penalty (optimize_model_parameters cfg fa) \<le> 1.0"
    using assms(4)
    by (auto simp add: optimize_model_parameters_def adjust_precision_def
        adjust_temperature_other_fields max_def min_def)
  have cons: "get_average_rating fa < 3.0 \<and> get_total_feedback fa \<ge> 10 \<longrightarrow>
      temperature (adjust_temperature cfg fa) = max 0.3 (temperature cfg - 0.1)"
    by (simp add: adjust_temperature_def Let_def)
  have crea: "\<not> get_average_rating fa < 3.0 \<and> get_average_rating fa > 4.0
      \<and> get_total_feedback fa \<ge> 10 \<longrightarrow>
      temperature (adjust_temperature cfg fa) = min 0.9 (temperature cfg + 0.1)"
    by (simp add: adjust_temperature_def Let_def)
  have neg: "get_negative_feedback_rate fa > 0.3 \<longrightarrow>
      top_p (optimize_model_parameters cfg fa) = max 0.7 (top_p cfg - 0.1)
    \<and> frequency_penalty (optimize_model_parameters cfg fa)
        = min 1.0 (frequency_penalty cfg + 0.1)"
    by (simp add: optimize_model_parameters_def adjust_precision_def
        adjust_temperature_other_fields)
  show ?thesis
    using t lo hi p f cons crea neg by simp
qed

theorem optimize_model_parameters_bounds_witness:
  "0.3 \<le> temperature initial_model_config \<and> temperature initial_model_config \<le> 0.9
   \<and> 0.7 \<le> top_p initial_model_config \<and> frequency_penalty initial_model_config \<le> 1.0
   \<and> temperature (optimize_model_parameters initial_model_config
        \<lparr>average_rating = Some 1.5, total_feedback = Some 10,
         negative_feedback_rate = Some 0.5, optimization_type = None\<rparr>) = 0.6
   \<and> top_p (optimize_model_parameters initial_model_config
        \<lparr>average_rating = Some 1.5, total_feedback = Some 10,
         negative_feedback_rate = Some 0.5, optimization_type = None\<rparr>) = 0.8
   \<and> frequency_penalty (optimize_model_parameters initial_model_config
        \<lparr>average_rating = Some 1.5, total_feedback = Some 10,
         negative_feedback_rate = Some 0.5, optimization_type = None\<rparr>) = 0.1"
  using optimize_model_parameters_bounds [of initial_model_config
      "\<lparr>average_rating = Some 1.5, total_feedback = Some 10,
        negative_feedback_rate = Some 0.5, optimization_type = None\<rparr>"]
  by (simp add: initial_model_config_def get_average_rating_def get_total_feedback_def
      get_negative_feedback_rate_def)

section \<open>Properties of the retention sweep\<close>

text \<open>
  C10. \<open>cleanup_old_knowledge\<close> uses the name \<open>timedelta\<close>, which its module never binds:
  every call, whatever the threshold, raises NameError before any statement is sent, the
  operation catches it, logs it and returns normally, and the knowledge base (like every
  other table) is left as it was.
\<close>

theorem cleanup_old_knowledge_never_deletes:
  "cleanup_old_knowledge w days_threshold = log_error (NameError ''timedelta'') w
   \<and> knowledge_base (cleanup_old_knowledge w days_threshold) = knowledge_base w
   \<and> errors_logged (cleanup_old_knowledge w days_threshold)
       = errors_logged w @ [NameError ''timedelta'']"
  by (simp add: cleanup_old_knowledge_def lookup_name_def knowledge_service_names_def
      log_error_def)




section \<open>Properties of the feedback trigger\<close>

lemma check_learning_trigger_no_session:
  \<comment> \<open>the trigger of \<open>feedback_service.py\<close> never inserts: \<open>json\<close> is not bound in its module\<close>
  "learning_sessions (check_learning_trigger w message_id) = learning_sessions w"
  by (simp add: check_learning_trigger_def trigger_learning_session_def Let_def uuid4_def
      lookup_name_def feedback_service_names_def log_error_def)




section \<open>Properties of the session runner\<close>

lemma sessions_update_session:
  "learning_sessions (update_session sid f w)
     = map (\<lambda>s. if s_id s = sid then f s else s) (learning_sessions w)"
  by (simp add: update_session_def)

lemma sessions_count_session:
  "learning_sessions (count_session r w) = learning_sessions w"
  by (simp add: count_session_def)

lemma map_update_all:
  assumes "\<And>x. s_id (f x) = s_id x" and "\<And>x. P (f x)"
  shows "\<forall>s \<in> set (map (\<lambda>x. if s_id x = sid then f x else x) xs). s_id s = sid \<longrightarrow> P s"
  by (induction xs) (simp_all add: assms)

lemma update_session_all:
  assumes "\<And>x. s_id (f x) = s_id x" and "\<And>x. P (f x)"
  shows "\<forall>s \<in> set (learning_sessions (update_session sid f w)). s_id s = sid \<longrightarrow> P s"
  unfolding sessions_update_session using assms by (rule map_update_all)

lemma update_session_ids:
  assumes "\<And>x. s_id (f x) = s_id x"
  shows "map s_id (learning_sessions (update_session sid f w)) = map s_id (learning_sessions w)"
  unfolding sessions_update_session by (induction "learning_sessions w") (simp_all add: assms)

lemma update_session_others:
  "\<forall>s \<in> set (learning_sessions w). s_id s \<noteq> sid \<longrightarrow>
     s \<in> set (learning_sessions (update_session sid f w))"
  unfolding sessions_update_session by (induction "learning_sessions w") auto

lemma run_learning_session_returned:
  "dispatch hs (mark_running w sid) sid typ = (Inr result, w2) \<Longrightarrow>
   run_learning_session hs w sid typ = count_session result (finish_session w2 sid result)"
  by (simp add: run_learning_session_def Let_def)

lemma run_learning_session_raised:
  "dispatch hs (mark_running w sid) sid typ = (Inl e, w2) \<Longrightarrow>
   run_learning_session hs w sid typ = mark_failed (log_error e w2) sid e"
  by (simp add: run_learning_session_def Let_def)

lemma mark_running_status:
  "\<forall>s \<in> set (learning_sessions (mark_running w sid)). s_id s = sid \<longrightarrow> status s = Running"
  unfolding mark_running_def by (rule update_session_all) simp_all

lemma finish_session_status:
  "\<forall>s \<in> set (learning_sessions (finish_session w sid result)). s_id s = sid \<longrightarrow>
     status s = (if has_key ''error'' result then Failed else Completed)
     \<and> output_data s = Some result"
  unfolding finish_session_def by (rule update_session_all) simp_all

lemma mark_failed_status:
  "\<forall>s \<in> set (learning_sessions (mark_failed w sid e)). s_id s = sid \<longrightarrow>
     status s = Failed \<and> error_message s = Some (str_of_error e)"
  unfolding mark_failed_def by (rule update_session_all) simp_all

lemma update_session_keeps:
  assumes "\<And>x. g (f x) = g x"
  shows "map g (learning_sessions (update_session sid f w)) = map g (learning_sessions w)"
  unfolding sessions_update_session by (induction "learning_sessions w") (simp_all add: assms)

lemma run_model_optimization_no_feedback:
  "recent_feedback w = [] \<Longrightarrow>
   run_model_optimization w sid
     = (Inr [(''error'', JStr (str_of_error none_lt_float))], log_error none_lt_float w)"
  by (simp add: run_model_optimization_def avg_def Let_def)

text \<open>
  C2 as stated fails: the runner's first statement sets a completed session to running,
  and a failed session that is run again ends completed; nothing is checked on entry.
\<close>

theorem rerun_counterexample:
  "map status (learning_sessions (mark_running
      (fresh_world\<lparr>learning_sessions := [session_in Completed 1 ''model_optimization'']\<rparr>) 1))
     = [Running]
   \<and> map status (learning_sessions (run_learning_session idle_handlers
      (fresh_world\<lparr>feedback_tbl := [fb 1 7 5 None (clock fresh_world)],
                   learning_sessions := [session_in Failed 1 ''model_optimization'']\<rparr>)
      1 ''model_optimization''))
     = [Completed]"
  by (simp add: run_learning_session_def dispatch_def run_model_optimization_def Let_def
      mark_running_def update_session_def finish_session_def count_session_def
      session_in_def new_session_def fresh_world_def fb_def avg_def current_date_def
      date_of_def days_def has_key_def json_float_or_zero_def recent_feedback_def)

text \<open>
  C2, amended. The runner takes the session with the given id through running to completed
  or failed: its first statement sets the status to running whatever the status was (no
  check on entry, no rejection), leaving the ids and every other session as they are, and
  after the run every session with that id is completed or failed. So a pending session
  goes pending, running, then completed or failed, and a terminal session that is run again
  leaves its state the same way.
\<close>

theorem runner_transitions:
  "(\<forall>s \<in> set (learning_sessions (mark_running w sid)). s_id s = sid \<longrightarrow> status s = Running)
   \<and> map s_id (learning_sessions (mark_running w sid)) = map s_id (learning_sessions w)
   \<and> (\<forall>s \<in> set (learning_sessions w). s_id s \<noteq> sid \<longrightarrow>
         s \<in> set (learning_sessions (mark_running w sid)))
   \<and> (\<forall>s \<in> set (learning_sessions (run_learning_session hs w sid typ)).
         s_id s = sid \<longrightarrow> status s = Completed \<or> status s = Failed)"
proof -
  have ids: "map s_id (learning_sessions (mark_running w sid)) = map s_id (learning_sessions w)"
    unfolding mark_running_def by (rule update_session_ids) simp
  have others: "\<forall>s \<in> set (learning_sessions w). s_id s \<noteq> sid \<longrightarrow>
         s \<in> set (learning_sessions (mark_running w sid))"
    unfolding mark_running_def by (rule update_session_others)
  obtain outcome w2 where d: "dispatch hs (mark_running w sid) sid typ = (outcome, w2)"
    by (cases "dispatch hs (mark_running w sid) sid typ")
  have fin: "\<forall>s \<in> set (learning_sessions (run_learning_session hs w sid typ)).
         s_id s = sid \<longrightarrow> status s = Completed \<or> status s = Failed"
  proof (cases outcome)
    case (Inl e)
    with d have "run_learning_session hs w sid typ = mark_failed (log_error e w2) sid e"
      by (simp add: run_learning_session_raised)
    then show ?thesis using mark_failed_status [of "log_error e w2" sid e] by simp
  next
    case (Inr result)
    with d have "run_learning_session hs w sid typ
        = count_session result (finish_session w2 sid result)"
      by (simp add: run_learning_session_returned)
    then show ?thesis
      using finish_session_status [of w2 sid result] by (simp add: sessions_count_session)
  qed
  from mark_running_status ids others fin show ?thesis by blast
qed

theorem runner_transitions_witness:
  "map (\<lambda>s. (s_id s, status s)) (learning_sessions (mark_running
      (fresh_world\<lparr>learning_sessions :=
         [session_in Completed 1 ''feedback_analysis'', session_in Pending 2 ''feedback_analysis'']\<rparr>) 1))
     = [(1, Running), (2, Pending)]
   \<and> map (\<lambda>s. (s_id s, status s)) (learning_sessions (run_learning_session idle_handlers
      (fresh_world\<lparr>learning_sessions :=
         [session_in Completed 1 ''feedback_analysis'', session_in Pending 2 ''feedback_analysis'']\<rparr>)
      1 ''feedback_analysis''))
     = [(1, Failed), (2, Pending)]"
  using runner_transitions [of
      "fresh_world\<lparr>learning_sessions :=
         [session_in Completed 1 ''feedback_analysis'', session_in Pending 2 ''feedback_analysis'']\<rparr>"
      1 idle_handlers "''feedback_analysis''"]
  by (simp add: run_learning_session_def dispatch_def
      mark_running_def update_session_def finish_session_def count_session_def
      session_in_def new_session_def has_key_def)

text \<open>
  C3 as stated fails: a pending \<open>model_optimization\<close> session run when no feedback lies in
  the window ends failed (the handler returns a result with the error marker) with a null
  \<open>error_message\<close>.
\<close>

theorem failed_without_error_message_counterexample:
  "map (\<lambda>s. (status s, error_message s))
     (learning_sessions (run_learning_session idle_handlers
        (fresh_world\<lparr>learning_sessions := [session_in Pending 1 ''model_optimization'']\<rparr>)
        1 ''model_optimization'')) = [(Failed, None)]"
  by (simp add: run_learning_session_def dispatch_def run_model_optimization_no_feedback
      mark_running_def update_session_def finish_session_def count_session_def
      session_in_def new_session_def fresh_world_def has_key_def log_error_def
      recent_feedback_def)

text \<open>
  C3, amended. When the handler returns a result, every session with the given id holds
  that result in \<open>output_data\<close> and is completed if the result has no error marker and
  failed if it has one, and no \<open>error_message\<close> is written; when an exception reaches the
  runner, every session with the given id is failed with the exception's text in
  \<open>error_message\<close>, and no \<open>output_data\<close> is written. So a completed session has a
  non-null \<open>output_data\<close>, and a failed session has a non-null \<open>output_data\<close> (marker
  path) or a non-null \<open>error_message\<close> (exception path).
\<close>

theorem runner_terminal_fields:
  "(dispatch hs (mark_running w sid) sid typ = (Inr r, w2) \<longrightarrow>
      (\<forall>s \<in> set (learning_sessions (run_learning_session hs w sid typ)). s_id s = sid \<longrightarrow>
          status s = (if has_key ''error'' r then Failed else Completed)
          \<and> output_data s = Some r)
      \<and> map error_message (learning_sessions (run_learning_session hs w sid typ))
          = map error_message (learning_sessions w2))
   \<and> (dispatch hs (mark_running w sid) sid typ = (Inl e, w2) \<longrightarrow>
      (\<forall>s \<in> set (learning_sessions (run_learning_session hs w sid typ)). s_id s = sid \<longrightarrow>
          status s = Failed \<and> error_message s = Some (str_of_error e))
      \<and> map output_data (learning_sessions (run_learning_session hs w sid typ))
          = map output_data (learning_sessions w2))"
proof (intro conjI impI)
  assume d: "dispatch hs (mark_running w sid) sid typ = (Inr r, w2)"
  then have run: "run_learning_session hs w sid typ = count_session r (finish_session w2 sid r)"
    by (rule run_learning_session_returned)
  show "\<forall>s \<in> set (learning_sessions (run_learning_session hs w sid typ)). s_id s = sid \<longrightarrow>
          status s = (if has_key ''error'' r then Failed else Completed)
          \<and> output_data s = Some r"
    using finish_session_status [of w2 sid r] by (simp add: run sessions_count_session)
  show "map error_message (learning_sessions (run_learning_session hs w sid typ))
          = map error_message (learning_sessions w2)"
    unfolding run sessions_count_session finish_session_def
    by (rule update_session_keeps) simp
next
  assume d: "dispatch hs (mark_running w sid) sid typ = (Inl e, w2)"
  then have run: "run_learning_session hs w sid typ = mark_failed (log_error e w2) sid e"
    by (rule run_learning_session_raised)
  show "\<forall>s \<in> set (learning_sessions (run_learning_session hs w sid typ)). s_id s = sid \<longrightarrow>
          status s = Failed \<and> error_message s = Some (str_of_error e)"
    using mark_failed_status [of "log_error e w2" sid e] by (simp add: run)
  have "map output_data (learning_sessions (mark_failed (log_error e w2) sid e))
          = map output_data (learning_sessions (log_error e w2))"
    unfolding mark_failed_def by (rule update_session_keeps) simp
  then show "map output_data (learning_sessions (run_learning_session hs w sid typ))
          = map output_data (learning_sessions w2)"
    by (simp add: run log_error_def)
qed

theorem runner_terminal_fields_witness:
  "dispatch idle_handlers
     (mark_running (fresh_world\<lparr>learning_sessions := [session_in Pending 1 ''feedback_analysis'']\<rparr>) 1)
     1 ''feedback_analysis''
    = (Inr [(''error'', JStr (''Tipo de sess'' @ [CHR 0xE3] @ ''o desconhecido: feedback_analysis''))],
       mark_running (fresh_world\<lparr>learning_sessions := [session_in Pending 1 ''feedback_analysis'']\<rparr>) 1)
   \<and> map (\<lambda>s. (status s, output_data s, error_message s))
       (learning_sessions (run_learning_session idle_handlers
          (fresh_world\<lparr>learning_sessions := [session_in Pending 1 ''feedback_analysis'']\<rparr>)
          1 ''feedback_analysis''))
      = [(Failed,
          Some [(''error'', JStr (''Tipo de sess'' @ [CHR 0xE3] @ ''o desconhecido: feedback_analysis''))],
          None)]
   \<and> dispatch raising_handlers
       (mark_running (fresh_world\<lparr>learning_sessions := [session_in Pending 1 ''knowledge_expansion'']\<rparr>) 1)
       1 ''knowledge_expansion''
      = (Inl (OtherError ''connection lost''),
         mark_running (fresh_world\<lparr>learning_sessions := [session_in Pending 1 ''knowledge_expansion'']\<rparr>) 1)
   \<and> map (\<lambda>s. (status s, output_data s, error_message s))
       (learning_sessions (run_learning_session raising_handlers
          (fresh_world\<lparr>learning_sessions := [session_in Pending 1 ''knowledge_expansion'']\<rparr>)
          1 ''knowledge_expansion''))
      = [(Failed, None, Some ''connection lost'')]"
  using runner_terminal_fields [of idle_handlers
      "fresh_world\<lparr>learning_sessions := [session_in Pending 1 ''feedback_analysis'']\<rparr>"
      1 "''feedback_analysis''"
      "[(''error'', JStr (''Tipo de sess'' @ [CHR 0xE3] @ ''o desconhecido: feedback_analysis''))]"
      "mark_running (fresh_world\<lparr>learning_sessions := [session_in Pending 1 ''feedback_analysis'']\<rparr>) 1"
      "OtherError ''connection lost''"]
    runner_terminal_fields [of raising_handlers
      "fresh_world\<lparr>learning_sessions := [session_in Pending 1 ''knowledge_expansion'']\<rparr>"
      1 "''knowledge_expansion''"
      "[]"
      "mark_running (fresh_world\<lparr>learning_sessions := [session_in Pending 1 ''knowledge_expansion'']\<rparr>) 1"
      "OtherError ''connection lost''"]
  by (simp add: dispatch_def raising_handlers_def idle_handlers_def has_key_def
      mark_running_def update_session_def session_in_def new_session_def
      run_learning_session_def finish_session_def count_session_def mark_failed_def
      log_error_def)

section \<open>Properties of the knowledge extraction\<close>

lemma knowledge_base_add_knowledge_item:
  "knowledge_base (snd (add_knowledge_item w ttl cont cat tgs src conf))
     = knowledge_base w @
       [\<lparr>k_id = next_uuid w, title = ttl, content = cont, category = cat,
         tags = (case tgs of None \<Rightarrow> [] | Some ts \<Rightarrow> ts), source = src,
         confidence_score = conf, usage_count = 0, last_used_at = None,
         k_created_at = clock w, chromadb_id = Suc (next_uuid w)\<rparr>]"
  by (simp add: add_knowledge_item_def uuid4_def Let_def)

lemma knowledge_base_count_knowledge_item:
  "knowledge_base (count_knowledge_item w) = knowledge_base w"
  by (simp add: count_knowledge_item_def)

lemma knowledge_base_trigger:
  "knowledge_base (check_model_optimization_trigger w message_id) = knowledge_base w"
  by (simp add: check_model_optimization_trigger_def Let_def uuid4_def)

lemma process_positive_feedback_items:
  assumes "length c > 20"
  shows "\<exists>items. knowledge_base (process_positive_feedback w message_content (Some c) conv)
            = knowledge_base w @ items
         \<and> map (\<lambda>k. (category k, content k, confidence_score k, source k)) items
            = (if length message_content > 100
               then [(Some ''respostas_positivas'', message_content, 0.9, ''feedback_positivo'')]
               else [])
              @ [(Some ''insights_usuarios'', c, 0.8, ''comentario_positivo'')]"
proof (cases "length message_content > 100")
  case True
  from assms have ne: "c \<noteq> []" by auto
  with True assms show ?thesis
    by (simp add: process_positive_feedback_def knowledge_base_add_knowledge_item
        knowledge_base_count_knowledge_item Let_def)
next
  case False
  from assms have ne: "c \<noteq> []" by auto
  with False assms show ?thesis
    by (simp add: process_positive_feedback_def knowledge_base_add_knowledge_item Let_def)
qed

text \<open>
  C6. When a feedback with rating at least 4 and a comment of more than 20 characters is
  processed (its row and its message being found), the knowledge base grows by exactly
  these items, in this order: one item of category \<open>respostas_positivas\<close> (positive
  responses) with confidence 0.9 holding the message content, exactly when that content is
  longer than 100 characters, and one item of category \<open>insights_usuarios\<close> (user insights)
  with confidence 0.8 holding the comment. Nothing else is added and no item is changed.
\<close>

theorem positive_feedback_knowledge:
  assumes "rtg \<ge> 4" and "length c > 20"
    and "feedback_with_message w feedback_id = (message_id, conversation_id, message_content) # rest"
  shows "\<exists>items. knowledge_base (process_feedback_for_learning w feedback_id rtg (Some c))
            = knowledge_base w @ items
         \<and> map (\<lambda>k. (category k, content k, confidence_score k, source k)) items
            = (if length message_content > 100
               then [(Some ''respostas_positivas'', message_content, 0.9, ''feedback_positivo'')]
               else [])
              @ [(Some ''insights_usuarios'', c, 0.8, ''comentario_positivo'')]"
  using assms(1,3) process_positive_feedback_items [OF assms(2), of w message_content conversation_id]
  by (simp add: process_feedback_for_learning_def knowledge_base_trigger Let_def)

theorem positive_feedback_knowledge_witness:
  "map (\<lambda>k. (category k, content k, confidence_score k, source k))
     (knowledge_base (process_feedback_for_learning
        (world_with_feedback (answer 120) 5 (Some ''Resposta muito clara e completa''))
        1 5 (Some ''Resposta muito clara e completa'')))
    = [(Some ''respostas_positivas'', answer 120, 0.9, ''feedback_positivo''),
       (Some ''insights_usuarios'', ''Resposta muito clara e completa'', 0.8,
        ''comentario_positivo'')]
  \<and> map (\<lambda>k. (category k, content k, confidence_score k, source k))
     (knowledge_base (process_feedback_for_learning
        (world_with_feedback (answer 40) 4 (Some ''Resposta muito clara e completa''))
        1 4 (Some ''Resposta muito clara e completa'')))
    = [(Some ''insights_usuarios'', ''Resposta muito clara e completa'', 0.8,
        ''comentario_positivo'')]"
  using positive_feedback_knowledge [of 5 "''Resposta muito clara e completa''"
      "world_with_feedback (answer 120) 5 (Some ''Resposta muito clara e completa'')" 1 7 1
      "answer 120" "[]"]
    positive_feedback_knowledge [of 4 "''Resposta muito clara e completa''"
      "world_with_feedback (answer 40) 4 (Some ''Resposta muito clara e completa'')" 1 7 1
      "answer 40" "[]"]
  by (auto simp add: feedback_with_message_def world_with_feedback_def fresh_world_def fb_def
      answer_def)

section \<open>Properties of the processing of negative feedback\<close>

lemma record_system_metric_raises:
  "record_system_metric w name val lbls
     = Inl (AttributeError ''object has no attribute record_system_metric'')"
  by (simp add: record_system_metric_def lookup_attr_def metrics_service_attrs_def)

lemma process_negative_feedback_effect:
  "process_negative_feedback w message_content cmt conv
     = (if improvement_areas cmt = [] then w
        else log_error (AttributeError ''object has no attribute record_system_metric'') w)"
  by (cases "improvement_areas cmt")
     (simp_all add: process_negative_feedback_def record_system_metric_raises)

lemma process_negative_feedback_tables:
  "knowledge_base (process_negative_feedback w message_content cmt conv) = knowledge_base w"
  "performance_metrics (process_negative_feedback w message_content cmt conv)
     = performance_metrics w"
  by (simp_all add: process_negative_feedback_effect log_error_def)

lemma improvement_areas_taxonomy:
  "set (improvement_areas cmt)
     \<subseteq> {''performance'', ''accuracy'', ''clarity'', ''completeness''}"
  by (cases cmt) (auto simp add: improvement_areas_def Let_def)

lemma extract_improvement_area_taxonomy:
  "extract_improvement_area c
     \<in> {''performance'', ''accuracy'', ''clarity'', ''completeness'', ''general''}"
  by (simp add: extract_improvement_area_def Let_def)

text \<open>
  C7 at a failing input. A feedback with rating 1 and the comment "Muito lento" is
  processed: the comment is classified into the area \<open>performance\<close>, the call that should
  record the metric of the area raises AttributeError (\<open>MetricsService\<close> has no method
  \<open>record_system_metric\<close>), the exception is caught and logged, and no metric is written.
  No knowledge item is created.
\<close>

theorem negative_feedback_records_no_metric:
  "improvement_areas (Some ''Muito lento'') = [''performance'']
   \<and> performance_metrics (process_feedback_for_learning
        (world_with_feedback (answer 120) 1 (Some ''Muito lento'')) 1 1 (Some ''Muito lento''))
       = []
   \<and> errors_logged (process_feedback_for_learning
        (world_with_feedback (answer 120) 1 (Some ''Muito lento'')) 1 1 (Some ''Muito lento''))
       = [AttributeError ''object has no attribute record_system_metric'']
   \<and> knowledge_base (process_feedback_for_learning
        (world_with_feedback (answer 120) 1 (Some ''Muito lento'')) 1 1 (Some ''Muito lento''))
       = []"
proof -
  have areas: "improvement_areas (Some ''Muito lento'') = [''performance'']"
    by (simp add: improvement_areas_def lower_def lower_char_def any_in_def Let_def)
  have found: "feedback_with_message
      (world_with_feedback (answer 120) 1 (Some ''Muito lento'')) 1 = [(7, 1, answer 120)]"
    by (simp add: feedback_with_message_def world_with_feedback_def fb_def)
  have run: "process_feedback_for_learning
      (world_with_feedback (answer 120) 1 (Some ''Muito lento'')) 1 1 (Some ''Muito lento'')
    = check_model_optimization_trigger
        (log_error (AttributeError ''object has no attribute record_system_metric'')
           (world_with_feedback (answer 120) 1 (Some ''Muito lento''))) 7"
    unfolding process_feedback_for_learning_def found
    by (simp add: process_negative_feedback_effect areas)
  show ?thesis
    unfolding run
    by (simp add: areas check_model_optimization_trigger_def Let_def log_error_def
        world_with_feedback_def fresh_world_def fb_def feedback_threshold_def)
qed

section \<open>Properties of the model optimization handler\<close>

lemma avg_ratings:
  assumes "map rating fs = [1, 1, 2, 2, 1, 2, 1, 2, 1, 2]"
  shows "avg (map (\<lambda>f. real_of_int (rating f)) fs) = Some 1.5"
proof -
  have "map (\<lambda>f. real_of_int (rating f)) fs = map real_of_int (map rating fs)"
    by simp
  also have "\<dots> = [1, 1, 2, 2, 1, 2, 1, 2, 1, 2]"
    unfolding assms by simp
  finally show ?thesis by (simp add: avg_def)
qed

lemma count_ratings:
  assumes "map rating fs = [1, 1, 2, 2, 1, 2, 1, 2, 1, 2]"
  shows "length fs = 10" and "length (filter (\<lambda>f. rating f \<le> 2) fs) = 10"
proof -
  have "length (map rating fs) = 10" unfolding assms by simp
  then show "length fs = 10" by simp
  have "length (filter (\<lambda>f. rating f \<le> 2) fs) = length (filter (\<lambda>r. r \<le> 2) (map rating fs))"
    by (simp add: filter_map o_def)
  also have "\<dots> = 10" unfolding assms by simp
  finally show "length (filter (\<lambda>f. rating f \<le> 2) fs) = 10" .
qed


lemma run_model_optimization_conservative:
  assumes "map rating (recent_feedback w) = [1, 1, 2, 2, 1, 2, 1, 2, 1, 2]"
  shows "\<exists>analysis.
      run_model_optimization w sid
        = (Inr [(''session_id'', JUuid sid), (''analysis'', analysis),
                (''optimizations_applied'',
                   JList (map JStr (''conservative_tuning''
                     # pattern_tags (analyze_negative_patterns (negative_comments w))))),
                (''negative_patterns'',
                   JList (map JStr (analyze_negative_patterns (negative_comments w))))],
           tune w 1.5 10 ''conservative'')"
  by (simp add: run_model_optimization_def Let_def avg_ratings [OF assms]
      count_ratings [OF assms])

lemma tune_temperature:
  "temperature (model_cfg w) = 0.7 \<Longrightarrow>
   temperature (model_cfg (tune w 1.5 10 ''conservative'')) = 0.6"
  by (simp add: tune_def optimize_model_parameters_def adjust_temperature_def
      adjust_precision_def get_average_rating_def get_total_feedback_def
      get_negative_feedback_rate_def Let_def)

lemma tune_sessions:
  "learning_sessions (tune w a n mode) = learning_sessions w"
  by (simp add: tune_def)


lemma mark_running_frame:
  "recent_feedback (mark_running w sid) = recent_feedback w"
  "negative_comments (mark_running w sid) = negative_comments w"
  "model_cfg (mark_running w sid) = model_cfg w"
  by (simp_all add: mark_running_def update_session_def recent_feedback_def
      negative_comments_def current_date_def)

lemma finish_model_cfg:
  "model_cfg (count_session r (finish_session w sid r)) = model_cfg w"
  by (simp add: count_session_def finish_session_def update_session_def)

lemma run_model_optimization_sessions:
  "learning_sessions (snd (run_model_optimization w sid)) = learning_sessions w"
  by (simp add: run_model_optimization_def Let_def tune_def log_error_def
      split: option.split)

lemma model_optimization_run_ids:
  "map s_id (learning_sessions (run_learning_session hs w sid ''model_optimization''))
     = map s_id (learning_sessions w)"
proof -
  obtain outcome w2 where h: "run_model_optimization (mark_running w sid) sid = (outcome, w2)"
    by (cases "run_model_optimization (mark_running w sid) sid")
  then have d: "dispatch hs (mark_running w sid) sid ''model_optimization'' = (outcome, w2)"
    by (simp add: dispatch_def)
  have w2: "learning_sessions w2 = learning_sessions (mark_running w sid)"
    using run_model_optimization_sessions [of "mark_running w sid" sid] h by simp
  have ids1: "map s_id (learning_sessions (mark_running w sid)) = map s_id (learning_sessions w)"
    unfolding mark_running_def by (rule update_session_ids) simp
  show ?thesis
  proof (cases outcome)
    case (Inl e)
    with d have "run_learning_session hs w sid ''model_optimization''
        = mark_failed (log_error e w2) sid e"
      by (simp add: run_learning_session_raised)
    moreover have "map s_id (learning_sessions (mark_failed (log_error e w2) sid e))
        = map s_id (learning_sessions (log_error e w2))"
      unfolding mark_failed_def by (rule update_session_ids) simp
    ultimately show ?thesis
      using w2 ids1 by (simp add: log_error_def)
  next
    case (Inr r)
    with d have "run_learning_session hs w sid ''model_optimization''
        = count_session r (finish_session w2 sid r)"
      by (simp add: run_learning_session_returned)
    moreover have "map s_id (learning_sessions (finish_session w2 sid r))
        = map s_id (learning_sessions w2)"
      unfolding finish_session_def by (rule update_session_ids) simp
    ultimately show ?thesis
      using w2 ids1 by (simp add: sessions_count_session)
  qed
qed

text \<open>
  C8. A \<open>model_optimization\<close> session is run when the feedbacks of the 7-day window are
  exactly ten, rated 1,1,2,2,1,2,1,2,1,2 (average 1.5), and the temperature is 0.7: the
  handler tunes in the conservative mode, the temperature after the handler and after the
  whole run is max(0.3, 0.7 - 0.1) = 0.6, and every session with the given id ends
  completed with an output whose \<open>optimizations_applied\<close> list holds
  \<open>conservative_tuning\<close>.
\<close>

theorem model_optimization_conservative_tuning:
  assumes ratings: "map rating (recent_feedback w) = [1, 1, 2, 2, 1, 2, 1, 2, 1, 2]"
    and temp: "temperature (model_cfg w) = 0.7"
  shows "snd (run_model_optimization w sid) = tune w 1.5 10 ''conservative''
       \<and> temperature (model_cfg (snd (run_model_optimization w sid))) = 0.6
       \<and> temperature (model_cfg (run_learning_session hs w sid ''model_optimization'')) = 0.6
       \<and> (\<forall>s \<in> set (learning_sessions (run_learning_session hs w sid ''model_optimization'')).
             s_id s = sid \<longrightarrow>
             status s = Completed
             \<and> (\<exists>result tgs. output_data s = Some result
                   \<and> map_of result ''optimizations_applied'' = Some (JList tgs)
                   \<and> JStr ''conservative_tuning'' \<in> set tgs))"
proof -
  let ?w1 = "mark_running w sid"
  have ratings1: "map rating (recent_feedback ?w1) = [1, 1, 2, 2, 1, 2, 1, 2, 1, 2]"
    using ratings by (simp add: mark_running_frame)
  have temp1: "temperature (model_cfg ?w1) = 0.7"
    using temp by (simp add: mark_running_frame)
  from run_model_optimization_conservative [OF ratings, of sid]
  have handler: "snd (run_model_optimization w sid) = tune w 1.5 10 ''conservative''"
    by auto
  from run_model_optimization_conservative [OF ratings1, of sid]
  obtain analysis where h: "run_model_optimization ?w1 sid
        = (Inr [(''session_id'', JUuid sid), (''analysis'', analysis),
                (''optimizations_applied'',
                   JList (map JStr (''conservative_tuning''
                     # pattern_tags (analyze_negative_patterns (negative_comments ?w1))))),
                (''negative_patterns'',
                   JList (map JStr (analyze_negative_patterns (negative_comments ?w1))))],
           tune ?w1 1.5 10 ''conservative'')"
    by blast
  let ?r = "[(''session_id'', JUuid sid), (''analysis'', analysis),
                (''optimizations_applied'',
                   JList (map JStr (''conservative_tuning''
                     # pattern_tags (analyze_negative_patterns (negative_comments ?w1))))),
                (''negative_patterns'',
                   JList (map JStr (analyze_negative_patterns (negative_comments ?w1))))]"
  have d: "dispatch hs ?w1 sid ''model_optimization'' = (Inr ?r, tune ?w1 1.5 10 ''conservative'')"
    by (simp add: dispatch_def h)
  have run: "run_learning_session hs w sid ''model_optimization''
      = count_session ?r (finish_session (tune ?w1 1.5 10 ''conservative'') sid ?r)"
    using d by (rule run_learning_session_returned)
  have no_error: "\<not> has_key ''error'' ?r"
    by (simp add: has_key_def)
  have cfg: "temperature (model_cfg (run_learning_session hs w sid ''model_optimization'')) = 0.6"
    unfolding run finish_model_cfg using temp1 by (rule tune_temperature)
  have sess: "\<forall>s \<in> set (learning_sessions (run_learning_session hs w sid ''model_optimization'')).
             s_id s = sid \<longrightarrow>
             status s = Completed
             \<and> (\<exists>result tgs. output_data s = Some result
                   \<and> map_of result ''optimizations_applied'' = Some (JList tgs)
                   \<and> JStr ''conservative_tuning'' \<in> set tgs)"
  proof (intro ballI impI)
    fix s
    assume "s \<in> set (learning_sessions (run_learning_session hs w sid ''model_optimization''))"
      and "s_id s = sid"
    then have st: "status s = (if has_key ''error'' ?r then Failed else Completed)
        \<and> output_data s = Some ?r"
      using finish_session_status [of "tune ?w1 1.5 10 ''conservative''" sid ?r]
      by (simp add: run sessions_count_session)
    let ?tags = "map JStr (''conservative_tuning''
             # pattern_tags (analyze_negative_patterns (negative_comments ?w1)))"
    from st no_error have c: "status s = Completed" and out: "output_data s = Some ?r"
      by simp_all
    show "status s = Completed
             \<and> (\<exists>result tgs. output_data s = Some result
                   \<and> map_of result ''optimizations_applied'' = Some (JList tgs)
                   \<and> JStr ''conservative_tuning'' \<in> set tgs)"
    proof (intro conjI exI)
      show "status s = Completed" by (rule c)
      show "output_data s = Some ?r" by (rule out)
      show "map_of ?r ''optimizations_applied'' = Some (JList ?tags)" by simp
      show "JStr ''conservative_tuning'' \<in> set ?tags" by simp
    qed
  qed
  have t0: "temperature (model_cfg (snd (run_model_optimization w sid))) = 0.6"
    unfolding handler using temp by (rule tune_temperature)
  from handler t0 cfg sess show ?thesis
    by blast
qed

theorem model_optimization_conservative_tuning_witness:
  "map rating (recent_feedback low_rated_week) = [1, 1, 2, 2, 1, 2, 1, 2, 1, 2]
   \<and> temperature (model_cfg low_rated_week) = 0.7
   \<and> temperature (model_cfg
        (run_learning_session idle_handlers low_rated_week 1 ''model_optimization'')) = 0.6
   \<and> map (\<lambda>s. (s_id s, status s))
        (learning_sessions
           (run_learning_session idle_handlers low_rated_week 1 ''model_optimization''))
       = [(1, Completed)]"
proof -
  have r: "map rating (recent_feedback low_rated_week) = [1, 1, 2, 2, 1, 2, 1, 2, 1, 2]"
    by (simp add: recent_feedback_def low_rated_week_def fresh_world_def fb_def
        current_date_def date_of_def days_def)
  have t: "temperature (model_cfg low_rated_week) = 0.7"
    by (simp add: low_rated_week_def fresh_world_def initial_model_config_def)
  note inst = model_optimization_conservative_tuning [OF r t, of 1 idle_handlers]
  have "map s_id (learning_sessions
      (run_learning_session idle_handlers low_rated_week 1 ''model_optimization'')) = [1]"
    by (simp add: model_optimization_run_ids low_rated_week_def session_in_def
        new_session_def)
  then obtain s where s: "learning_sessions
      (run_learning_session idle_handlers low_rated_week 1 ''model_optimization'') = [s]"
      "s_id s = 1"
    by auto
  with inst have "status s = Completed" by simp
  with s r t inst show ?thesis by simp
qed

section \<open>Properties of the trend analysis\<close>

lemma import_metrics_service_raises:
  "import_metrics_service = Inl (NameError ''Optional'')"
  by (simp add: import_metrics_service_def lookup_name_def metrics_service_names_def)

lemma record_metric_raises:
  "record_metric w name val typ lbls ctx = Inl (NameError ''Optional'')"
  by (simp add: record_metric_def import_metrics_service_raises)

lemma get_performance_trends_raises:
  "get_performance_trends w ds = Inl (NameError ''Optional'')"
  by (simp add: get_performance_trends_def import_metrics_service_raises)

lemma daily_series_dates:
  "map date (daily_series rows) = sort (remdups (map (\<lambda>r. date_of (fst r)) rows))"
  by (simp add: daily_series_def Let_def o_def)

lemma daily_series_ascending:
  "sorted (map date (daily_series rows))" "distinct (map date (daily_series rows))"
  by (simp_all add: daily_series_dates)

lemma select_trends_ascending:
  \<comment> \<open>the queries themselves give daily buckets in ascending order of date\<close>
  "sorted (map date (response_time (select_trends w ds)))"
  "distinct (map date (response_time (select_trends w ds)))"
  "sorted (map date (user_satisfaction (select_trends w ds)))"
  "distinct (map date (user_satisfaction (select_trends w ds)))"
  by (simp_all add: select_trends_def Let_def daily_series_ascending)

lemma slow_week_trends:
  "response_time (select_trends slow_week 7)
     = [\<lparr>date = 997, average = 6.2, sample_count = 1\<rparr>,
        \<lparr>date = 998, average = 5.8, sample_count = 1\<rparr>,
        \<lparr>date = 999, average = 6.5, sample_count = 1\<rparr>]"
  "user_satisfaction (select_trends slow_week 7)
     = [\<lparr>date = 997, average = 2, sample_count = 1\<rparr>,
        \<lparr>date = 998, average = 3, sample_count = 1\<rparr>,
        \<lparr>date = 999, average = 2, sample_count = 1\<rparr>]"
  by (simp_all add: select_trends_def daily_series_def slow_week_def fresh_world_def
      response_time_row_def fb_def days_def date_of_def avg_def float_or_zero_def Let_def)

text \<open>
  C9 at a failing input. The stored measurements give the daily response-time averages
  6.2, 5.8 and 6.5 for the three most recent days, whose mean 18.5 / 3 exceeds 5.0, so the
  alert rule asks for a \<open>performance_degradation\<close> alert. But \<open>metrics_service.py\<close> never
  loads: the signature of \<open>record_metric\<close> is annotated with \<open>Optional\<close>, which the module
  does not import, so the class body raises NameError (CPython before 3.14). Neither
  \<open>get_performance_trends\<close> nor \<open>record_metric\<close> nor the trend analysis of
  \<open>celery_tasks.py\<close>, which imports the class, can run, and no alert metric is written.
\<close>

theorem trend_analysis_raises_at_import:
  "map (\<lambda>p. (date p, average p)) (response_time (select_trends slow_week 7))
     = [(997, 6.2), (998, 5.8), (999, 6.5)]
   \<and> mean_recent (response_time (select_trends slow_week 7)) = 18.5 / 3
   \<and> get_performance_trends slow_week 7 = Inl (NameError ''Optional'')
   \<and> response_time_alert slow_week (response_time (select_trends slow_week 7))
       = Inl (NameError ''Optional'')
   \<and> analyze_performance_trends_async slow_week = Inl (NameError ''Optional'')"
proof -
  have series: "map (\<lambda>p. (date p, average p)) (response_time (select_trends slow_week 7))
     = [(997, 6.2), (998, 5.8), (999, 6.5)]"
    by (simp add: slow_week_trends)
  have mean: "mean_recent (response_time (select_trends slow_week 7)) = 18.5 / 3"
    by (simp add: slow_week_trends mean_recent_def last3_def)
  have alert: "response_time_alert slow_week (response_time (select_trends slow_week 7))
       = Inl (NameError ''Optional'')"
    unfolding response_time_alert_def Let_def mean
    by (simp add: slow_week_trends record_metric_raises)
  have task: "analyze_performance_trends_async slow_week = Inl (NameError ''Optional'')"
    by (simp add: analyze_performance_trends_async_def import_celery_tasks_def
        import_metrics_service_raises)
  from series mean alert task show ?thesis
    by (simp add: get_performance_trends_raises)
qed

end
